theory Spec2Isabelle
  imports Complex_Main
begin

section \<open>JavaScript numbers\<close>

text \<open>
  The gesture code computes with JavaScript numbers. The model keeps the special values
  of IEEE 754 that a division can produce (the infinities and NaN) and takes every finite
  value as an exact real: rounding, overflow and the sign of zero are not modelled
  (a zero divisor counts as +0, which is what a distance or a length can be).
\<close>

datatype jsnum = Fin real | PInf | NInf | NaN

text \<open>The operator \<open>/\<close>.\<close>

fun js_div :: "jsnum \<Rightarrow> jsnum \<Rightarrow> jsnum" where
  "js_div NaN b = NaN"
| "js_div a NaN = NaN"
| "js_div (Fin a) (Fin b) =
     (if b \<noteq> 0 then Fin (a / b)
      else if 0 < a then PInf else if a < 0 then NInf else NaN)"
| "js_div (Fin a) PInf = Fin 0"
| "js_div (Fin a) NInf = Fin 0"
| "js_div PInf (Fin b) = (if 0 \<le> b then PInf else NInf)"
| "js_div NInf (Fin b) = (if 0 \<le> b then NInf else PInf)"
| "js_div PInf PInf = NaN"
| "js_div PInf NInf = NaN"
| "js_div NInf PInf = NaN"
| "js_div NInf NInf = NaN"

text \<open>The operator \<open>*\<close>.\<close>

fun js_mul :: "jsnum \<Rightarrow> jsnum \<Rightarrow> jsnum" where
  "js_mul NaN b = NaN"
| "js_mul a NaN = NaN"
| "js_mul (Fin a) (Fin b) = Fin (a * b)"
| "js_mul (Fin a) PInf = (if 0 < a then PInf else if a < 0 then NInf else NaN)"
| "js_mul (Fin a) NInf = (if 0 < a then NInf else if a < 0 then PInf else NaN)"
| "js_mul PInf (Fin b) = (if 0 < b then PInf else if b < 0 then NInf else NaN)"
| "js_mul NInf (Fin b) = (if 0 < b then NInf else if b < 0 then PInf else NaN)"
| "js_mul PInf PInf = PInf"
| "js_mul PInf NInf = NInf"
| "js_mul NInf PInf = NInf"
| "js_mul NInf NInf = PInf"

text \<open>The comparisons \<open><\<close> and \<open>>=\<close>: both are false as soon as one side is NaN.\<close>

fun js_lt :: "jsnum \<Rightarrow> jsnum \<Rightarrow> bool" where
  "js_lt NaN b = False"
| "js_lt a NaN = False"
| "js_lt (Fin a) (Fin b) = (a < b)"
| "js_lt (Fin a) PInf = True"
| "js_lt (Fin a) NInf = False"
| "js_lt PInf b = False"
| "js_lt NInf (Fin b) = True"
| "js_lt NInf PInf = True"
| "js_lt NInf NInf = False"

fun js_ge :: "jsnum \<Rightarrow> jsnum \<Rightarrow> bool" where
  "js_ge NaN b = False"
| "js_ge a NaN = False"
| "js_ge (Fin a) (Fin b) = (b \<le> a)"
| "js_ge (Fin a) PInf = False"
| "js_ge (Fin a) NInf = True"
| "js_ge PInf b = True"
| "js_ge NInf (Fin b) = False"
| "js_ge NInf PInf = False"
| "js_ge NInf NInf = True"

text \<open>Truthiness of a number, as \<open>||\<close> tests it: 0 and NaN are falsy.\<close>

fun js_truthy :: "jsnum \<Rightarrow> bool" where
  "js_truthy (Fin a) = (a \<noteq> 0)"
| "js_truthy NaN = False"
| "js_truthy PInf = True"
| "js_truthy NInf = True"

text \<open>The \<open>length\<close> of an array, as a number.\<close>

definition js_length :: "'a list \<Rightarrow> jsnum" where
  "js_length xs = Fin (real (length xs))"

section \<open>Point2D and State, as Pinch reads them\<close>

record Point2D =
  pt_x :: real
  pt_y :: real

text \<open>
  Modelled from the spec: Point2D.distanceTo is not among the sources; the spec gives it
  as the Euclidean distance between two points with finite coordinates.
\<close>

definition distanceTo :: "Point2D \<Rightarrow> Point2D \<Rightarrow> real" where
  "distanceTo p q = sqrt ((pt_x q - pt_x p)\<^sup>2 + (pt_y q - pt_y p)\<^sup>2)"

text \<open>
  Modelled from the spec: Point2D.averageDistanceTo is not among the sources; the spec
  gives it as the mean of distanceTo over a sequence of points and leaves the empty
  sequence to the caller. The model writes the mean as the quotient of the total by the
  length, so the empty sequence gives 0 / 0.
\<close>

definition averageDistanceTo :: "Point2D \<Rightarrow> Point2D list \<Rightarrow> jsnum" where
  "averageDistanceTo p ps = js_div (Fin (sum_list (map (distanceTo p) ps))) (js_length ps)"

text \<open>
  The State object handed to a hook. Pinch reads three of its properties; the inputs
  themselves stay abstract, and whatever else the State holds is the record's extension.
  The centroid is a Point2D, as the PinchData typedef declares the midpoint it becomes.
\<close>

record 'i State =
  active :: "'i list"
  activePoints :: "Point2D list"
  centroid :: Point2D

section \<open>Pinch\<close>

definition DEFAULT_MIN_INPUTS :: jsnum where
  "DEFAULT_MIN_INPUTS = Fin 2"

record PinchData =
  distance :: jsnum
  midpoint :: Point2D
  change :: jsnum

text \<open>
  A Pinch object: the type tag it hands to the base constructor, and its two own fields.
\<close>

record Pinch =
  gesture_type :: string
  minInputs :: jsnum
  previous :: jsnum

text \<open>The options object of the constructor; a missing property is \<open>None\<close>.\<close>

record PinchOptions =
  opt_minInputs :: "jsnum option"

text \<open>
  What a caller can pass for the options: nothing, null, or an object.
\<close>

datatype 'o js_arg = Undefined | Null | Obj 'o

text \<open>
  The constructor. The default \<open>{}\<close> of its parameter stands in for a missing
  argument only; null is kept, and reading \<open>minInputs\<close> of null throws a TypeError.
  On an object, \<open>||\<close> replaces a missing or falsy \<open>minInputs\<close> by the default.
  A constructor call either throws (\<open>Inl\<close>) or returns the object (\<open>Inr\<close>).
\<close>

definition Pinch_constructor :: "PinchOptions js_arg \<Rightarrow> string + Pinch" where
  "Pinch_constructor arg =
     (let options = (case arg of Undefined \<Rightarrow> Obj \<lparr>opt_minInputs = None\<rparr> | Null \<Rightarrow> Null
                       | Obj given \<Rightarrow> Obj given)
      in case options of
           Undefined \<Rightarrow> Inl ''TypeError''
         | Null \<Rightarrow> Inl ''TypeError''
         | Obj opts \<Rightarrow>
             Inr \<lparr>gesture_type = ''pinch'',
                  minInputs = (case opt_minInputs opts of
                                 None \<Rightarrow> DEFAULT_MIN_INPUTS
                               | Some n \<Rightarrow> if js_truthy n then n else DEFAULT_MIN_INPUTS),
                  previous = Fin 0\<rparr>)"

text \<open>
  A hook runs on two objects: the gesture it is a method of and the State it is given.
  Both are kept in the frame the hook transforms, so that what a hook writes, and what
  it leaves alone, is visible in its result.
\<close>

record ('i, 'm) frame =
  this_obj :: Pinch
  state_obj :: "('i, 'm) State_scheme"

definition Pinch_refresh :: "('i, 'm) frame \<Rightarrow> ('i, 'm) frame" where
  "Pinch_refresh fr =
     (if js_ge (js_length (active (state_obj fr))) (minInputs (this_obj fr))
      then let d = averageDistanceTo (centroid (state_obj fr)) (activePoints (state_obj fr))
           in fr\<lparr>this_obj := (this_obj fr)\<lparr>previous := d\<rparr>\<rparr>
      else fr)"

text \<open>
  The four hooks return the value the caller sees (\<open>None\<close> for null and for no return
  value) and the frame they leave behind.
\<close>

definition Pinch_start :: "('i, 'm) frame \<Rightarrow> PinchData option \<times> ('i, 'm) frame" where
  "Pinch_start fr = (None, Pinch_refresh fr)"

definition Pinch_move :: "('i, 'm) frame \<Rightarrow> PinchData option \<times> ('i, 'm) frame" where
  "Pinch_move fr =
     (if js_lt (js_length (active (state_obj fr))) (minInputs (this_obj fr)) then (None, fr)
      else let m = centroid (state_obj fr);
               d = averageDistanceTo m (activePoints (state_obj fr));
               c = js_div d (previous (this_obj fr))
           in (Some \<lparr>distance = d, midpoint = m, change = c\<rparr>,
               fr\<lparr>this_obj := (this_obj fr)\<lparr>previous := d\<rparr>\<rparr>))"

definition Pinch_end :: "('i, 'm) frame \<Rightarrow> PinchData option \<times> ('i, 'm) frame" where
  "Pinch_end fr = (None, Pinch_refresh fr)"

definition Pinch_cancel :: "('i, 'm) frame \<Rightarrow> PinchData option \<times> ('i, 'm) frame" where
  "Pinch_cancel fr = (None, Pinch_refresh fr)"

text \<open>
  The phases of an event, and the hook that a dispatcher calls for each.
\<close>

datatype phase = Start | Move | End | Cancel

fun Pinch_hook :: "phase \<Rightarrow> ('i, 'm) frame \<Rightarrow> PinchData option \<times> ('i, 'm) frame" where
  "Pinch_hook Start = Pinch_start"
| "Pinch_hook Move = Pinch_move"
| "Pinch_hook End = Pinch_end"
| "Pinch_hook Cancel = Pinch_cancel"

abbreviation active_count :: "('i, 'm) frame \<Rightarrow> jsnum" where
  "active_count fr \<equiv> js_length (active (state_obj fr))"

abbreviation current_distance :: "('i, 'm) frame \<Rightarrow> jsnum" where
  "current_distance fr \<equiv> averageDistanceTo (centroid (state_obj fr)) (activePoints (state_obj fr))"

text \<open>
  Successive move calls on one Pinch object, with no other hook in between: the caller
  hands in the State of each event, and the object carries \<open>previous\<close> from one call
  to the next. The results are listed in call order.
\<close>

fun Pinch_moves :: "Pinch \<Rightarrow> ('i, 'm) State_scheme list \<Rightarrow> PinchData option list \<times> Pinch" where
  "Pinch_moves g [] = ([], g)"
| "Pinch_moves g (s # ss) =
     (let (r, fr) = Pinch_move \<lparr>this_obj = g, state_obj = s\<rparr>;
          (rs, g') = Pinch_moves (this_obj fr) ss
      in (r # rs, g'))"

text \<open>The records among the results (the recognized calls), in order.\<close>

fun emitted :: "PinchData option list \<Rightarrow> PinchData list" where
  "emitted [] = []"
| "emitted (None # rs) = emitted rs"
| "emitted (Some r # rs) = r # emitted rs"

text \<open>A caller's running scale: it starts at 1 and is multiplied by each change.\<close>

definition running_scale :: "PinchData list \<Rightarrow> jsnum" where
  "running_scale ds = foldl js_mul (Fin 1) (map change ds)"

fun nonzero_finite :: "jsnum \<Rightarrow> bool" where
  "nonzero_finite (Fin a) = (a \<noteq> 0)"
| "nonzero_finite PInf = False"
| "nonzero_finite NInf = False"
| "nonzero_finite NaN = False"

text \<open>
  States for the examples: two contacts on the horizontal axis, \<open>r\<close> to the left and to
  the right of the origin, which is their centroid.
\<close>

definition pair_state :: "real \<Rightarrow> nat State" where
  "pair_state r =
     \<lparr>active = [0, 1],
      activePoints = [\<lparr>pt_x = - r, pt_y = 0\<rparr>, \<lparr>pt_x = r, pt_y = 0\<rparr>],
      centroid = \<lparr>pt_x = 0, pt_y = 0\<rparr>\<rparr>"

definition pinch_obj :: "jsnum \<Rightarrow> Pinch" where
  "pinch_obj p = \<lparr>gesture_type = ''pinch'', minInputs = Fin 2, previous = p\<rparr>"

definition empty_state :: "nat State" where
  "empty_state = \<lparr>active = [], activePoints = [], centroid = \<lparr>pt_x = 0, pt_y = 0\<rparr>\<rparr>"

section \<open>The Interactor's Rotate\<close>

text \<open>
  A move hook of the gesture library: a method of a gesture object (its \<open>this\<close> is the
  first argument) that takes the inputs, the library's state and the element, and
  returns null (\<open>None\<close>) or a result. The library is not part of the sources: its heap
  \<open>'h\<close>, on which a hook may act, and its types stay abstract.
\<close>

type_synonym ('g, 'i, 's, 'e, 'h, 'r) move_hook =
  "'g \<Rightarrow> 'i \<Rightarrow> 's \<Rightarrow> 'e \<Rightarrow> 'h \<Rightarrow> 'r option \<times> 'h"

record ('g, 'i, 's, 'e, 'h, 'r) Rotate =
  move :: "('g, 'i, 's, 'e, 'h, 'r) move_hook"

text \<open>
  refineRotateMove, the function that rotater() installs. \<open>rotateMove\<close> is the hook it
  closes over; \<open>numActiveInputs\<close> is the method of the library's state that it calls.
\<close>

definition refineRotateMove ::
  "('s \<Rightarrow> nat) \<Rightarrow> ('g, 'i, 's, 'e, 'h, 'r) move_hook \<Rightarrow> ('g, 'i, 's, 'e, 'h, 'r) move_hook" where
  "refineRotateMove numActiveInputs rotateMove self inputs state element h =
     (if numActiveInputs state = 2 then rotateMove self inputs state element h
      else (None, h))"

text \<open>rotater(), given the object that \<open>new ZingTouch.Rotate()\<close> makes.\<close>

definition rotater ::
  "('s \<Rightarrow> nat) \<Rightarrow> ('g, 'i, 's, 'e, 'h, 'r, 'm) Rotate_scheme \<Rightarrow>
   ('g, 'i, 's, 'e, 'h, 'r, 'm) Rotate_scheme" where
  "rotater numActiveInputs new_Rotate =
     (let rotate = new_Rotate;
          rotateMove = move rotate
      in rotate\<lparr>move := refineRotateMove numActiveInputs rotateMove\<rparr>)"

text \<open>
  A handler is called with a list of numbers and acts on the world \<open>'w\<close> of the
  controller that registered it. NOP does nothing.
\<close>

type_synonym 'w handler = "jsnum list \<Rightarrow> 'w \<Rightarrow> 'w"

definition NOP :: "'w handler" where
  "NOP args w = w"

definition HANDLERS :: "string \<rightharpoonup> 'w handler" where
  "HANDLERS = [''pan'' \<mapsto> NOP, ''rotate'' \<mapsto> NOP, ''tap'' \<mapsto> NOP, ''zoom'' \<mapsto> NOP]"

text \<open>getInitialValues of the shared utilities, on objects as maps from property names.\<close>

definition getInitialValues :: "(string \<rightharpoonup> 'v) \<Rightarrow> (string \<rightharpoonup> 'v) \<Rightarrow> (string \<rightharpoonup> 'v)" where
  "getInitialValues defaults data =
     (\<lambda>k. case defaults k of
            None \<Rightarrow> None
          | Some d \<Rightarrow> (case data k of Some v \<Rightarrow> Some v | None \<Rightarrow> Some d))"

record 'w Interactor =
  handlers :: "string \<rightharpoonup> 'w handler"

text \<open>
  The constructor, as far as the handlers go (the canvas, the region and its bindings
  belong to the gesture library and the browser). A missing argument is the empty object.
\<close>

definition Interactor_constructor :: "(string \<rightharpoonup> 'w handler) option \<Rightarrow> 'w Interactor" where
  "Interactor_constructor arg =
     (let hs = (case arg of None \<Rightarrow> Map.empty | Some m \<Rightarrow> m)
      in \<lparr>handlers = getInitialValues HANDLERS hs\<rparr>)"

text \<open>The constant \<open>Math.PI\<close>, exact like every finite number of the model.\<close>

definition Math_PI :: jsnum where
  "Math_PI = Fin pi"

record RotateDetail =
  distanceFromLast :: jsnum

record RotateEvent =
  detail :: RotateDetail

text \<open>
  The rotate method, the callback bound to the Rotate gesture. Calling a handler that
  is not there throws.
\<close>

definition Interactor_rotate :: "'w Interactor \<Rightarrow> RotateEvent \<Rightarrow> 'w \<Rightarrow> string + 'w" where
  "Interactor_rotate self ev w =
     (let degrees = distanceFromLast (detail ev);
          radians = js_div (js_mul degrees Math_PI) (Fin 180)
      in case handlers self ''rotate'' of
           None \<Rightarrow> Inl ''TypeError''
         | Some h \<Rightarrow> Inr (h [radians] w))"

section \<open>Removing by id\<close>

record 'a Item =
  item_id :: 'a

text \<open>
  Array.findIndex: the index of the first element that satisfies the test, or -1.
\<close>

fun findIndex :: "('a \<Rightarrow> bool) \<Rightarrow> 'a list \<Rightarrow> int" where
  "findIndex p [] = - 1"
| "findIndex p (x # xs) =
     (if p x then 0 else let i = findIndex p xs in if i < 0 then - 1 else i + 1)"

text \<open>Array.splice(idx, 1), for an index inside the array: the array without that element.\<close>

definition splice1 :: "'a list \<Rightarrow> nat \<Rightarrow> 'a list" where
  "splice1 xs idx = take idx xs @ drop (idx + 1) xs"

text \<open>
  removeById mutates the array and returns a boolean: the model returns both. The ids are
  compared with \<open>===\<close>, which is equality on the stamps that serve as ids.
\<close>

definition removeById ::
  "('a, 'm) Item_scheme list \<Rightarrow> ('a, 'n) Item_scheme \<Rightarrow> bool \<times> ('a, 'm) Item_scheme list" where
  "removeById array item =
     (let idx = findIndex (\<lambda>el. item_id el = item_id item) array
      in if 0 \<le> idx then (True, splice1 array (nat idx)) else (False, array))"

text \<open>
  A class, as safeRemoveById uses it: its text in a template string, and the test
  \<open>instanceof\<close> makes.
\<close>

record 'x js_class =
  class_text :: string
  has_instance :: "'x \<Rightarrow> bool"

definition safeRemoveById ::
  "('a, 'm) Item_scheme list \<Rightarrow> ('a, 'n) Item_scheme \<Rightarrow> ('a, 'n) Item_scheme js_class \<Rightarrow>
   string + bool \<times> ('a, 'm) Item_scheme list" where
  "safeRemoveById array item class_fn =
     (if \<not> has_instance class_fn item then Inl (''Invalid '' @ class_text class_fn @ '' received.'')
      else Inr (removeById array item))"

section \<open>Facts about numbers and distances\<close>

lemma js_ge_not_lt: "js_ge a b \<Longrightarrow> \<not> js_lt a b"
  by (cases a; cases b) auto

lemma js_lt_not_ge: "js_lt a b \<Longrightarrow> \<not> js_ge a b"
  by (cases a; cases b) auto

lemma total_distance_nonneg: "0 \<le> sum_list (map (distanceTo p) ps)"
  by (rule sum_list_nonneg) (auto simp: distanceTo_def)

lemma averageDistanceTo_range:
  "averageDistanceTo p ps = NaN \<or> (\<exists>r. 0 \<le> r \<and> averageDistanceTo p ps = Fin r)"
proof (cases ps)
  case Nil
  then show ?thesis by (simp add: averageDistanceTo_def js_length_def)
next
  case (Cons q qs)
  then show ?thesis
    using total_distance_nonneg [of p ps]
    by (simp add: averageDistanceTo_def js_length_def del: sum_list.Cons list.map)
qed

lemma distanceTo_horizontal:
  "distanceTo \<lparr>pt_x = a, pt_y = c\<rparr> \<lparr>pt_x = b, pt_y = c\<rparr> = \<bar>b - a\<bar>"
  by (simp add: distanceTo_def)

lemma pair_state_distance:
  "averageDistanceTo (centroid (pair_state r)) (activePoints (pair_state r)) = Fin \<bar>r\<bar>"
  by (simp add: pair_state_def averageDistanceTo_def js_length_def distanceTo_horizontal)

lemma pair_state_count: "js_length (active (pair_state r)) = Fin 2"
  by (simp add: pair_state_def js_length_def)

lemma js_div_zero_distance:
  "d = NaN \<or> (\<exists>r. 0 \<le> r \<and> d = Fin r) \<Longrightarrow>
   js_div d (Fin 0) = (if d = Fin 0 \<or> d = NaN then NaN else PInf)"
  by (auto split: if_splits)

section \<open>The move hook of Pinch\<close>

text \<open>
  C6. With fewer active contacts than \<open>minInputs\<close> (an empty \<open>active\<close> included), move
  returns null, raises nothing, and leaves the gesture, \<open>previous\<close> with it, as it was.
\<close>

theorem Pinch_move_insufficient:
  "js_lt (active_count fr) (minInputs (this_obj fr)) \<Longrightarrow> Pinch_move fr = (None, fr)"
  by (simp add: Pinch_move_def)

theorem Pinch_move_insufficient_witness:
  "js_lt (active_count \<lparr>this_obj = pinch_obj (Fin 7), state_obj = empty_state\<rparr>)
      (minInputs (this_obj \<lparr>this_obj = pinch_obj (Fin 7), state_obj = empty_state\<rparr>))
   \<and> Pinch_move \<lparr>this_obj = pinch_obj (Fin 7), state_obj = empty_state\<rparr>
       = (None, \<lparr>this_obj = pinch_obj (Fin 7), state_obj = empty_state\<rparr>)"
proof -
  have h: "js_lt (active_count \<lparr>this_obj = pinch_obj (Fin 7), state_obj = empty_state\<rparr>)
      (minInputs (this_obj \<lparr>this_obj = pinch_obj (Fin 7), state_obj = empty_state\<rparr>))"
    by (simp add: pinch_obj_def empty_state_def js_length_def)
  from h Pinch_move_insufficient [OF h] show ?thesis by simp
qed

text \<open>
  C4. With at least \<open>minInputs\<close> active contacts, move returns the record
  \<open>{distance, midpoint, change}\<close>: the midpoint is the State's centroid, the distance is
  the average distance from the centroid to the active points, the change is that distance
  divided by \<open>previous\<close>; and the distance is stored as the new \<open>previous\<close>.
\<close>

theorem Pinch_move_result:
  "js_ge (active_count fr) (minInputs (this_obj fr)) \<Longrightarrow>
   Pinch_move fr =
     (Some \<lparr>distance = current_distance fr,
            midpoint = centroid (state_obj fr),
            change = js_div (current_distance fr) (previous (this_obj fr))\<rparr>,
      fr\<lparr>this_obj := (this_obj fr)\<lparr>previous := current_distance fr\<rparr>\<rparr>)"
  by (simp add: Pinch_move_def js_ge_not_lt Let_def)

theorem Pinch_move_result_witness:
  "js_ge (active_count \<lparr>this_obj = pinch_obj (Fin 100), state_obj = pair_state 150\<rparr>) (Fin 2)
   \<and> Pinch_move \<lparr>this_obj = pinch_obj (Fin 100), state_obj = pair_state 150\<rparr> =
     (Some \<lparr>distance = Fin 150, midpoint = \<lparr>pt_x = 0, pt_y = 0\<rparr>, change = Fin (3 / 2)\<rparr>,
      \<lparr>this_obj = pinch_obj (Fin 150), state_obj = pair_state 150\<rparr>)"
  using Pinch_move_result [of "\<lparr>this_obj = pinch_obj (Fin 100), state_obj = pair_state 150\<rparr>"]
  by (simp add: pair_state_distance pair_state_count) (simp add: pinch_obj_def pair_state_def)

text \<open>
  C1, as the code has it. With \<open>previous\<close> equal to 0 and at least \<open>minInputs\<close> active
  contacts, move has no guard on the divisor: it raises nothing and does not return null.
  It returns the record of any recognized call, whose change is the quotient by zero,
  Infinity for a positive distance and NaN for the distance 0 (or an undefined one), and it
  stores the distance as the new \<open>previous\<close>.
\<close>

theorem Pinch_move_zero_previous:
  assumes "previous (this_obj fr) = Fin 0"
    and "js_ge (active_count fr) (minInputs (this_obj fr))"
  shows "Pinch_move fr =
     (Some \<lparr>distance = current_distance fr,
            midpoint = centroid (state_obj fr),
            change = (if current_distance fr = Fin 0 \<or> current_distance fr = NaN then NaN else PInf)\<rparr>,
      fr\<lparr>this_obj := (this_obj fr)\<lparr>previous := current_distance fr\<rparr>\<rparr>)"
  using assms js_div_zero_distance [OF averageDistanceTo_range]
  by (simp add: Pinch_move_def js_ge_not_lt Let_def)

theorem Pinch_move_zero_previous_witness:
  "previous (this_obj \<lparr>this_obj = pinch_obj (Fin 0), state_obj = pair_state 100\<rparr>) = Fin 0
   \<and> js_ge (active_count \<lparr>this_obj = pinch_obj (Fin 0), state_obj = pair_state 100\<rparr>) (Fin 2)
   \<and> Pinch_move \<lparr>this_obj = pinch_obj (Fin 0), state_obj = pair_state 100\<rparr> =
       (Some \<lparr>distance = Fin 100, midpoint = \<lparr>pt_x = 0, pt_y = 0\<rparr>, change = PInf\<rparr>,
        \<lparr>this_obj = pinch_obj (Fin 100), state_obj = pair_state 100\<rparr>)"
  using Pinch_move_zero_previous [of "\<lparr>this_obj = pinch_obj (Fin 0), state_obj = pair_state 100\<rparr>"]
  by (simp add: pair_state_distance pair_state_count) (simp add: pinch_obj_def pair_state_def)

text \<open>
  Two contacts on their centroid, \<open>previous\<close> equal to 0: move returns a record whose
  change is NaN, not null.
\<close>

theorem Pinch_move_zero_previous_counterexample:
  "previous (this_obj \<lparr>this_obj = pinch_obj (Fin 0), state_obj = pair_state 0\<rparr>) = Fin 0
   \<and> js_ge (active_count \<lparr>this_obj = pinch_obj (Fin 0), state_obj = pair_state 0\<rparr>)
        (minInputs (this_obj \<lparr>this_obj = pinch_obj (Fin 0), state_obj = pair_state 0\<rparr>))
   \<and> fst (Pinch_move \<lparr>this_obj = pinch_obj (Fin 0), state_obj = pair_state 0\<rparr>) =
       Some \<lparr>distance = Fin 0, midpoint = \<lparr>pt_x = 0, pt_y = 0\<rparr>, change = NaN\<rparr>
   \<and> fst (Pinch_move \<lparr>this_obj = pinch_obj (Fin 0), state_obj = pair_state 0\<rparr>) \<noteq> None"
  by (simp add: Pinch_move_def pair_state_distance pair_state_count Let_def)
     (simp add: pinch_obj_def pair_state_def)

section \<open>The constructor of Pinch\<close>

lemma Pinch_constructor_missing:
  "Pinch_constructor Undefined =
     Inr \<lparr>gesture_type = ''pinch'', minInputs = Fin 2, previous = Fin 0\<rparr>"
  by (simp add: Pinch_constructor_def DEFAULT_MIN_INPUTS_def)

lemma Pinch_constructor_null: "Pinch_constructor Null = Inl ''TypeError''"
  by (simp add: Pinch_constructor_def)

text \<open>
  C2, as the code has it. The constructor does not check \<open>minInputs\<close>. Given an
  options object with a non-positive \<open>minInputs\<close>, it does not reject it but returns a
  gesture: with the default 2 in place of 0, and with the value itself when that is
  negative.
\<close>

theorem Pinch_constructor_nonpositive:
  assumes "js_ge (Fin 0) n" and "opt_minInputs opts = Some n"
  shows "Pinch_constructor (Obj opts) =
           Inr \<lparr>gesture_type = ''pinch'',
                minInputs = (if n = Fin 0 then Fin 2 else n),
                previous = Fin 0\<rparr>"
  using assms by (cases n) (auto simp: Pinch_constructor_def DEFAULT_MIN_INPUTS_def)

theorem Pinch_constructor_nonpositive_witness:
  "js_ge (Fin 0) (Fin (- 3)) \<and> opt_minInputs \<lparr>opt_minInputs = Some (Fin (- 3))\<rparr> = Some (Fin (- 3))
   \<and> Pinch_constructor (Obj \<lparr>opt_minInputs = Some (Fin (- 3))\<rparr>) =
       Inr \<lparr>gesture_type = ''pinch'', minInputs = Fin (- 3), previous = Fin 0\<rparr>
   \<and> js_ge (Fin 0) (Fin 0)
   \<and> Pinch_constructor (Obj \<lparr>opt_minInputs = Some (Fin 0)\<rparr>) =
       Inr \<lparr>gesture_type = ''pinch'', minInputs = Fin 2, previous = Fin 0\<rparr>"
  using Pinch_constructor_nonpositive [of "Fin (- 3)" "\<lparr>opt_minInputs = Some (Fin (- 3))\<rparr>"]
    Pinch_constructor_nonpositive [of "Fin 0" "\<lparr>opt_minInputs = Some (Fin 0)\<rparr>"]
  by simp

text \<open>The configuration \<open>{minInputs: -1}\<close> is accepted as it is.\<close>

theorem Pinch_constructor_counterexample:
  "js_ge (Fin 0) (Fin (- 1))
   \<and> Pinch_constructor (Obj \<lparr>opt_minInputs = Some (Fin (- 1))\<rparr>) =
       Inr \<lparr>gesture_type = ''pinch'', minInputs = Fin (- 1), previous = Fin 0\<rparr>
   \<and> \<not> isl (Pinch_constructor (Obj \<lparr>opt_minInputs = Some (Fin (- 1))\<rparr>))"
  by (simp add: Pinch_constructor_def)

section \<open>The refreshing hooks of Pinch\<close>

text \<open>
  C7. The start, end and cancel hooks return no result. With at least \<open>minInputs\<close>
  active contacts they set \<open>previous\<close> to the current average distance from the
  State's centroid to its active points; with fewer, they change nothing.
\<close>

theorem Pinch_refresh_hooks:
  assumes "ph \<noteq> Move"
  shows "fst (Pinch_hook ph fr) = None
    \<and> (js_ge (active_count fr) (minInputs (this_obj fr)) \<longrightarrow>
         snd (Pinch_hook ph fr) = fr\<lparr>this_obj := (this_obj fr)\<lparr>previous := current_distance fr\<rparr>\<rparr>)
    \<and> (js_lt (active_count fr) (minInputs (this_obj fr)) \<longrightarrow> snd (Pinch_hook ph fr) = fr)"
  using assms
  by (cases ph)
     (simp_all add: Pinch_start_def Pinch_end_def Pinch_cancel_def Pinch_refresh_def js_lt_not_ge)

theorem Pinch_refresh_hooks_witness:
  "Start \<noteq> Move
   \<and> js_ge (active_count \<lparr>this_obj = pinch_obj (Fin 7), state_obj = pair_state 100\<rparr>) (Fin 2)
   \<and> Pinch_hook Start \<lparr>this_obj = pinch_obj (Fin 7), state_obj = pair_state 100\<rparr> =
       (None, \<lparr>this_obj = pinch_obj (Fin 100), state_obj = pair_state 100\<rparr>)
   \<and> js_lt (active_count \<lparr>this_obj = pinch_obj (Fin 7), state_obj = empty_state\<rparr>) (Fin 2)
   \<and> Pinch_hook Start \<lparr>this_obj = pinch_obj (Fin 7), state_obj = empty_state\<rparr> =
       (None, \<lparr>this_obj = pinch_obj (Fin 7), state_obj = empty_state\<rparr>)"
proof -
  have a: "js_ge (active_count \<lparr>this_obj = pinch_obj (Fin 7), state_obj = pair_state 100\<rparr>) (Fin 2)"
    by (simp add: pair_state_count)
  have b: "js_lt (active_count \<lparr>this_obj = pinch_obj (Fin 7), state_obj = empty_state\<rparr>) (Fin 2)"
    by (simp add: empty_state_def js_length_def)
  have m: "minInputs (pinch_obj p) = Fin 2" for p by (simp add: pinch_obj_def)
  have u: "pinch_obj (Fin 7)\<lparr>previous := Fin 100\<rparr> = pinch_obj (Fin 100)" by (simp add: pinch_obj_def)
  show ?thesis
    using a b
      Pinch_refresh_hooks [of Start "\<lparr>this_obj = pinch_obj (Fin 7), state_obj = pair_state 100\<rparr>"]
      Pinch_refresh_hooks [of Start "\<lparr>this_obj = pinch_obj (Fin 7), state_obj = empty_state\<rparr>"]
    by (simp add: m u pair_state_distance prod_eq_iff)
qed

section \<open>What a hook of Pinch reads and writes\<close>

text \<open>
  C9. Every hook of Pinch (start, move, end, cancel) leaves the State it is given as it
  was, and the gesture too except for its field \<open>previous\<close>: \<open>minInputs\<close> in
  particular is unchanged. What a hook returns and what it stores depend on the State
  through \<open>active\<close>, \<open>centroid\<close> and \<open>activePoints\<close> only: two States that agree on
  these three, whatever else they hold, give the same result and the same gesture.
\<close>

theorem Pinch_hook_frame:
  "state_obj (snd (Pinch_hook ph fr)) = state_obj fr
   \<and> this_obj (snd (Pinch_hook ph fr)) =
       (this_obj fr)\<lparr>previous := previous (this_obj (snd (Pinch_hook ph fr)))\<rparr>
   \<and> minInputs (this_obj (snd (Pinch_hook ph fr))) = minInputs (this_obj fr)
   \<and> (this_obj fr' = this_obj fr \<and> active (state_obj fr') = active (state_obj fr)
        \<and> centroid (state_obj fr') = centroid (state_obj fr)
        \<and> activePoints (state_obj fr') = activePoints (state_obj fr) \<longrightarrow>
      fst (Pinch_hook ph fr') = fst (Pinch_hook ph fr)
      \<and> this_obj (snd (Pinch_hook ph fr')) = this_obj (snd (Pinch_hook ph fr)))"
  by (cases ph)
     (simp_all add: Pinch_start_def Pinch_end_def Pinch_cancel_def Pinch_refresh_def
        Pinch_move_def Let_def)

theorem Pinch_hook_frame_witness:
  "this_obj \<lparr>this_obj = pinch_obj (Fin 100), state_obj = State.extend (pair_state 150) True\<rparr>
     = this_obj \<lparr>this_obj = pinch_obj (Fin 100), state_obj = pair_state 150\<rparr>
   \<and> active (State.extend (pair_state 150) True) = active (pair_state 150)
   \<and> centroid (State.extend (pair_state 150) True) = centroid (pair_state 150)
   \<and> activePoints (State.extend (pair_state 150) True) = activePoints (pair_state 150)
   \<and> state_obj (snd (Pinch_hook Move \<lparr>this_obj = pinch_obj (Fin 100), state_obj = pair_state 150\<rparr>))
       = pair_state 150
   \<and> minInputs (this_obj (snd (Pinch_hook Move
         \<lparr>this_obj = pinch_obj (Fin 100), state_obj = pair_state 150\<rparr>))) = Fin 2
   \<and> fst (Pinch_hook Move
         \<lparr>this_obj = pinch_obj (Fin 100), state_obj = State.extend (pair_state 150) True\<rparr>)
       = fst (Pinch_hook Move \<lparr>this_obj = pinch_obj (Fin 100), state_obj = pair_state 150\<rparr>)"
  using Pinch_hook_frame [of Move "\<lparr>this_obj = pinch_obj (Fin 100), state_obj = pair_state 150\<rparr>"
      "\<lparr>this_obj = pinch_obj (Fin 100), state_obj = State.extend (pair_state 150) True\<rparr>"]
  by (simp add: State.defs) (simp add: pinch_obj_def)

section \<open>Successive moves of a Pinch\<close>

lemma js_mul_one: "js_mul (Fin 1) c = c"
  by (cases c) simp_all

lemma chain_step:
  "dv \<noteq> 0 \<Longrightarrow>
   js_mul (js_mul A (js_div (Fin dv) p)) (js_div L (Fin dv)) = js_mul A (js_div L p)"
  by (cases A; cases p; cases L)
     (auto simp: zero_less_mult_iff mult_less_0_iff zero_less_divide_iff divide_less_0_iff
        not_le not_less)

lemma Pinch_moves_step_none:
  "js_lt (js_length (active s)) (minInputs g) \<Longrightarrow>
   Pinch_moves g (s # ss) = (None # fst (Pinch_moves g ss), snd (Pinch_moves g ss))"
  by (simp add: Pinch_move_def split: prod.splits)

lemma Pinch_moves_step_some:
  "\<not> js_lt (js_length (active s)) (minInputs g) \<Longrightarrow>
   Pinch_moves g (s # ss) =
     (Some \<lparr>distance = averageDistanceTo (centroid s) (activePoints s),
            midpoint = centroid s,
            change = js_div (averageDistanceTo (centroid s) (activePoints s)) (previous g)\<rparr>
        # fst (Pinch_moves (g\<lparr>previous := averageDistanceTo (centroid s) (activePoints s)\<rparr>) ss),
      snd (Pinch_moves (g\<lparr>previous := averageDistanceTo (centroid s) (activePoints s)\<rparr>) ss))"
  by (simp add: Pinch_move_def Let_def split: prod.splits)

declare Pinch_moves.simps(2) [simp del]

lemma Pinch_moves_none_emitted:
  "emitted (fst (Pinch_moves g ss)) = [] \<Longrightarrow> snd (Pinch_moves g ss) = g"
proof (induction ss arbitrary: g)
  case Nil
  then show ?case by simp
next
  case (Cons s ss)
  show ?case
  proof (cases "js_lt (js_length (active s)) (minInputs g)")
    case True
    with Cons show ?thesis by (simp add: Pinch_moves_step_none)
  next
    case False
    with Cons.prems show ?thesis by (simp add: Pinch_moves_step_some)
  qed
qed

lemma Pinch_moves_chain:
  "emitted (fst (Pinch_moves g ss)) \<noteq> [] \<Longrightarrow>
   \<forall>r\<in>set (butlast (emitted (fst (Pinch_moves g ss)))). nonzero_finite (distance r) \<Longrightarrow>
   foldl js_mul A (map change (emitted (fst (Pinch_moves g ss))))
     = js_mul A (js_div (previous (snd (Pinch_moves g ss))) (previous g))"
proof (induction ss arbitrary: g A)
  case Nil
  then show ?case by simp
next
  case (Cons s ss)
  show ?case
  proof (cases "js_lt (js_length (active s)) (minInputs g)")
    case True
    with Cons show ?thesis by (simp add: Pinch_moves_step_none)
  next
    case False
    define d where "d = averageDistanceTo (centroid s) (activePoints s)"
    define g1 where "g1 = g\<lparr>previous := d\<rparr>"
    have step: "Pinch_moves g (s # ss) =
        (Some \<lparr>distance = d, midpoint = centroid s, change = js_div d (previous g)\<rparr>
           # fst (Pinch_moves g1 ss), snd (Pinch_moves g1 ss))"
      using False by (simp add: Pinch_moves_step_some d_def g1_def)
    show ?thesis
    proof (cases "emitted (fst (Pinch_moves g1 ss)) = []")
      case True
      then have "snd (Pinch_moves g1 ss) = g1" by (rule Pinch_moves_none_emitted)
      then show ?thesis using True by (simp add: step g1_def)
    next
      case rest: False
      then have "nonzero_finite d" using Cons.prems(2) by (simp add: step)
      then obtain dv where dv: "d = Fin dv" "dv \<noteq> 0" by (cases d) simp_all
      have p2: "\<forall>r\<in>set (butlast (emitted (fst (Pinch_moves g1 ss)))). nonzero_finite (distance r)"
        using Cons.prems(2) rest by (simp add: step)
      have "foldl js_mul (js_mul A (js_div d (previous g))) (map change (emitted (fst (Pinch_moves g1 ss))))
          = js_mul (js_mul A (js_div d (previous g)))
              (js_div (previous (snd (Pinch_moves g1 ss))) (previous g1))"
        by (rule Cons.IH [OF rest p2])
      also have "\<dots> = js_mul A (js_div (previous (snd (Pinch_moves g1 ss))) (previous g))"
        using chain_step [OF dv(2), of A "previous g" "previous (snd (Pinch_moves g1 ss))"]
        by (simp add: g1_def dv(1))
      finally show ?thesis by (simp add: step)
    qed
  qed
qed

lemma Pinch_moves_last:
  "emitted (fst (Pinch_moves g ss)) \<noteq> [] \<Longrightarrow>
   previous (snd (Pinch_moves g ss)) = distance (last (emitted (fst (Pinch_moves g ss))))"
proof (induction ss arbitrary: g)
  case Nil
  then show ?case by simp
next
  case (Cons s ss)
  show ?case
  proof (cases "js_lt (js_length (active s)) (minInputs g)")
    case True
    with Cons show ?thesis by (simp add: Pinch_moves_step_none)
  next
    case False
    show ?thesis
    proof (cases "emitted (fst (Pinch_moves (g\<lparr>previous := averageDistanceTo (centroid s) (activePoints s)\<rparr>) ss)) = []")
      case True
      then show ?thesis
        using False Pinch_moves_none_emitted [OF True]
        by (simp add: Pinch_moves_step_some)
    next
      case rest: False
      then show ?thesis
        using False Cons.IH [OF rest]
        by (simp add: Pinch_moves_step_some)
    qed
  qed
qed

lemma Pinch_moves_example:
  "Pinch_moves (pinch_obj (Fin 100)) [pair_state 150, pair_state 75] =
     ([Some \<lparr>distance = Fin 150, midpoint = \<lparr>pt_x = 0, pt_y = 0\<rparr>, change = Fin (3 / 2)\<rparr>,
       Some \<lparr>distance = Fin 75, midpoint = \<lparr>pt_x = 0, pt_y = 0\<rparr>, change = Fin (1 / 2)\<rparr>],
      pinch_obj (Fin 75))"
  by (simp add: Pinch_moves.simps(2) Pinch_move_def pair_state_distance pair_state_count Let_def)
     (simp add: pinch_obj_def pair_state_def)

lemma Pinch_moves_fresh:
  "Pinch_moves (pinch_obj (Fin 0)) [pair_state 150, pair_state 75] =
     ([Some \<lparr>distance = Fin 150, midpoint = \<lparr>pt_x = 0, pt_y = 0\<rparr>, change = PInf\<rparr>,
       Some \<lparr>distance = Fin 75, midpoint = \<lparr>pt_x = 0, pt_y = 0\<rparr>, change = Fin (1 / 2)\<rparr>],
      pinch_obj (Fin 75))"
  by (simp add: Pinch_moves.simps(2) Pinch_move_def pair_state_distance pair_state_count Let_def)
     (simp add: pinch_obj_def pair_state_def)

text \<open>
  C5, as the code has it. Over successive move calls with no refresh in between, of
  which at least one is recognized, if every emitted distance but the last is finite and
  not 0, then the product of the emitted changes is the last emitted distance divided by
  the initial \<open>previous\<close>, whatever that is; and the last emitted distance is the final
  \<open>previous\<close>. The numbers are exact here: rounding is not modelled.
  The example: from 100 to 150 to 75, the changes are 1.5 and 0.5 and their product is
  0.75. On a gesture whose \<open>previous\<close> is still 0, the same two moves give Infinity on
  both sides.
\<close>

theorem Pinch_moves_compose:
  assumes "emitted (fst (Pinch_moves g ss)) \<noteq> []"
    and "\<forall>r\<in>set (butlast (emitted (fst (Pinch_moves g ss)))). nonzero_finite (distance r)"
  shows "running_scale (emitted (fst (Pinch_moves g ss)))
           = js_div (distance (last (emitted (fst (Pinch_moves g ss))))) (previous g)
       \<and> previous (snd (Pinch_moves g ss)) = distance (last (emitted (fst (Pinch_moves g ss))))"
  using Pinch_moves_chain [OF assms, of "Fin 1"] Pinch_moves_last [OF assms(1)]
  by (simp add: running_scale_def js_mul_one)

theorem Pinch_moves_compose_witness:
  "emitted (fst (Pinch_moves (pinch_obj (Fin 100)) [pair_state 150, pair_state 75])) \<noteq> []
   \<and> Pinch_moves (pinch_obj (Fin 100)) [pair_state 150, pair_state 75] =
     ([Some \<lparr>distance = Fin 150, midpoint = \<lparr>pt_x = 0, pt_y = 0\<rparr>, change = Fin (3 / 2)\<rparr>,
       Some \<lparr>distance = Fin 75, midpoint = \<lparr>pt_x = 0, pt_y = 0\<rparr>, change = Fin (1 / 2)\<rparr>],
      pinch_obj (Fin 75))
   \<and> running_scale (emitted (fst (Pinch_moves (pinch_obj (Fin 100)) [pair_state 150, pair_state 75])))
       = Fin (3 / 4)
   \<and> js_div (Fin 75) (Fin 100) = Fin (3 / 4)
   \<and> running_scale (emitted (fst (Pinch_moves (pinch_obj (Fin 0)) [pair_state 150, pair_state 75])))
       = PInf
   \<and> js_div (Fin 75) (Fin 0) = PInf"
proof -
  have a: "emitted (fst (Pinch_moves (pinch_obj (Fin 100)) [pair_state 150, pair_state 75])) \<noteq> []"
    by (simp add: Pinch_moves_example)
  have b: "\<forall>r\<in>set (butlast (emitted (fst (Pinch_moves (pinch_obj (Fin 100))
             [pair_state 150, pair_state 75])))). nonzero_finite (distance r)"
    by (simp add: Pinch_moves_example)
  have "running_scale (emitted (fst (Pinch_moves (pinch_obj (Fin 100)) [pair_state 150, pair_state 75])))
      = js_div (distance (last (emitted (fst (Pinch_moves (pinch_obj (Fin 100))
          [pair_state 150, pair_state 75]))))) (previous (pinch_obj (Fin 100)))"
    using Pinch_moves_compose [OF a b] by simp
  moreover have "running_scale (emitted (fst (Pinch_moves (pinch_obj (Fin 0))
        [pair_state 150, pair_state 75]))) = PInf"
    by (simp add: Pinch_moves_fresh running_scale_def)
  ultimately show ?thesis
    using a by (simp add: Pinch_moves_example) (simp add: pinch_obj_def)
qed

text \<open>
  From 100, the contacts meet on their centroid and then part to 75. Both calls are
  recognized; the changes are 0 and Infinity, their product is NaN, and 75 / 100 is 0.75.
\<close>

theorem Pinch_moves_compose_counterexample:
  "Pinch_moves (pinch_obj (Fin 100)) [pair_state 0, pair_state 75] =
     ([Some \<lparr>distance = Fin 0, midpoint = \<lparr>pt_x = 0, pt_y = 0\<rparr>, change = Fin 0\<rparr>,
       Some \<lparr>distance = Fin 75, midpoint = \<lparr>pt_x = 0, pt_y = 0\<rparr>, change = PInf\<rparr>],
      pinch_obj (Fin 75))
   \<and> running_scale (emitted (fst (Pinch_moves (pinch_obj (Fin 100)) [pair_state 0, pair_state 75])))
       = NaN
   \<and> js_div (Fin 75) (Fin 100) = Fin (3 / 4)"
proof -
  have e: "Pinch_moves (pinch_obj (Fin 100)) [pair_state 0, pair_state 75] =
     ([Some \<lparr>distance = Fin 0, midpoint = \<lparr>pt_x = 0, pt_y = 0\<rparr>, change = Fin 0\<rparr>,
       Some \<lparr>distance = Fin 75, midpoint = \<lparr>pt_x = 0, pt_y = 0\<rparr>, change = PInf\<rparr>],
      pinch_obj (Fin 75))"
    by (simp add: Pinch_moves.simps(2) Pinch_move_def pair_state_distance pair_state_count Let_def)
       (simp add: pinch_obj_def pair_state_def)
  show ?thesis by (simp add: e running_scale_def)
qed

section \<open>Rotate in the Interactor\<close>

text \<open>
  C3. The move hook of the recognizer that rotater() returns gives null whenever the
  number of active inputs is not exactly 2 (3 or more included), without touching
  anything, and with exactly 2 it is the call of the hook it wraps, on the same arguments.
\<close>

theorem rotater_move_two_contacts:
  "(numActiveInputs state \<noteq> 2 \<longrightarrow>
      move (rotater numActiveInputs rot) self inputs state element h = (None, h))
   \<and> (numActiveInputs state = 2 \<longrightarrow>
      move (rotater numActiveInputs rot) self inputs state element h
        = move rot self inputs state element h)"
  by (simp add: rotater_def refineRotateMove_def Let_def)

theorem rotater_move_two_contacts_witness:
  "length [1, 2, 3 :: nat] \<noteq> 2
   \<and> move (rotater length \<lparr>move = (\<lambda>g i s e h. (Some (sum_list s), Suc h))\<rparr>) () () [1, 2, 3 :: nat] () (0 :: nat)
       = (None, 0)
   \<and> length [1, 2 :: nat] = 2
   \<and> move (rotater length \<lparr>move = (\<lambda>g i s e h. (Some (sum_list s), Suc h))\<rparr>) () () [1, 2 :: nat] () (0 :: nat)
       = (Some 3, 1)"
  using rotater_move_two_contacts [of length "[1, 2, 3 :: nat]"
      "\<lparr>move = (\<lambda>g i s e h. (Some (sum_list s), Suc h))\<rparr>" "()" "()" "()" "0 :: nat"]
    rotater_move_two_contacts [of length "[1, 2 :: nat]"
      "\<lparr>move = (\<lambda>g i s e h. (Some (sum_list s), Suc h))\<rparr>" "()" "()" "()" "0 :: nat"]
  by simp

lemma js_mul_PI_div_180:
  "js_div (js_mul a Math_PI) (Fin 180) = js_mul a (js_div Math_PI (Fin 180))"
  by (cases a) (simp_all add: Math_PI_def)

text \<open>
  C8. The rotate callback of the Interactor hands the registered rotate handler one
  number: \<open>distanceFromLast\<close>, the measurement in degrees, multiplied by pi / 180. For a
  finite measurement that is the same angle in radians, with the same sign.
\<close>

theorem Interactor_rotate_radians:
  assumes "handlers self ''rotate'' = Some h"
  shows "Interactor_rotate self ev w
           = Inr (h [js_mul (distanceFromLast (detail ev)) (js_div Math_PI (Fin 180))] w)
         \<and> js_mul (Fin d) (js_div Math_PI (Fin 180)) = Fin (d * (pi / 180))
         \<and> (0 < d * (pi / 180)) = (0 < d)"
  using assms
  by (simp add: Interactor_rotate_def Let_def js_mul_PI_div_180)
     (simp add: Math_PI_def zero_less_mult_iff)

theorem Interactor_rotate_radians_witness:
  "handlers (Interactor_constructor (Some [''rotate'' \<mapsto> (\<lambda>args w. args # w)])) ''rotate''
     = Some (\<lambda>args w. args # w)
   \<and> Interactor_rotate (Interactor_constructor (Some [''rotate'' \<mapsto> (\<lambda>args w. args # w)]))
        \<lparr>detail = \<lparr>distanceFromLast = Fin 90\<rparr>\<rparr> [] = Inr [[Fin (pi / 2)]]"
proof -
  have r: "handlers (Interactor_constructor (Some [''rotate'' \<mapsto> (\<lambda>args w. args # w)])) ''rotate''
     = Some (\<lambda>args (w :: jsnum list list). args # w)"
    by (simp add: Interactor_constructor_def getInitialValues_def HANDLERS_def)
  from r Interactor_rotate_radians [OF r, of "\<lparr>detail = \<lparr>distanceFromLast = Fin 90\<rparr>\<rparr>" "[]" 90]
  show ?thesis by simp
qed

section \<open>Removing by id, twice\<close>

lemma findIndex_none: "\<forall>x\<in>set xs. \<not> p x \<Longrightarrow> findIndex p xs = - 1"
  by (induction xs) simp_all

lemma findIndex_first:
  "\<forall>y\<in>set ys. \<not> p y \<Longrightarrow> p x \<Longrightarrow> findIndex p (ys @ x # zs) = int (length ys)"
  by (induction ys) (simp_all add: Let_def)

lemma splice1_middle: "splice1 (ys @ x # zs) (length ys) = ys @ zs"
  by (simp add: splice1_def)

lemma removeById_none:
  "\<forall>el\<in>set array. item_id el \<noteq> item_id item \<Longrightarrow> removeById array item = (False, array)"
  by (simp add: removeById_def findIndex_none)

lemma removeById_first:
  "\<forall>y\<in>set ys. item_id y \<noteq> item_id item \<Longrightarrow> item_id x = item_id item \<Longrightarrow>
   removeById (ys @ x # zs) item = (True, ys @ zs)"
  by (simp add: removeById_def findIndex_first splice1_middle)

lemma safeRemoveById_cases:
  "safeRemoveById array item class_fn =
     (if has_instance class_fn item then Inr (removeById array item)
      else Inl (''Invalid '' @ class_text class_fn @ '' received.''))"
  by (simp add: safeRemoveById_def)

text \<open>
  C10, as the code has it. On every array: if no element has the id of the item,
  removeById returns false and leaves the array as it is; if one has it, removeById
  removes exactly the first such element and returns true. If moreover at most one element
  of the array has that id, a second removal of the same item returns false and leaves
  the array as it is. safeRemoveById, given an item of the class, is removeById.
\<close>

theorem removeById_idempotent:
  "((\<forall>el\<in>set array. item_id el \<noteq> item_id item) \<longrightarrow>
      removeById array item = (False, array))
   \<and> ((\<exists>el\<in>set array. item_id el = item_id item) \<longrightarrow>
        (\<exists>ys x zs. array = ys @ x # zs \<and> item_id x = item_id item
           \<and> (\<forall>y\<in>set ys. item_id y \<noteq> item_id item)
           \<and> removeById array item = (True, ys @ zs)
           \<and> (length (filter (\<lambda>el. item_id el = item_id item) array) \<le> 1 \<longrightarrow>
                removeById (ys @ zs) item = (False, ys @ zs))))
   \<and> (has_instance class_fn item \<longrightarrow>
        safeRemoveById array item class_fn = Inr (removeById array item))"
proof (intro conjI impI)
  assume "\<forall>el\<in>set array. item_id el \<noteq> item_id item"
  then show "removeById array item = (False, array)" by (rule removeById_none)
next
  assume "\<exists>el\<in>set array. item_id el = item_id item"
  then obtain ys x zs where split: "array = ys @ x # zs" "item_id x = item_id item"
      "\<forall>y\<in>set ys. item_id y \<noteq> item_id item"
    using split_list_first_prop [of array "\<lambda>el. item_id el = item_id item"] by blast
  have ys: "filter (\<lambda>el. item_id el = item_id item) ys = []"
    using split(3) by (simp add: filter_empty_conv)
  have first: "removeById array item = (True, ys @ zs)"
    unfolding split(1) using split(3) split(2) by (rule removeById_first)
  have second: "removeById (ys @ zs) item = (False, ys @ zs)"
    if once: "length (filter (\<lambda>el. item_id el = item_id item) array) \<le> 1"
  proof -
    have "length (filter (\<lambda>el. item_id el = item_id item) zs) = 0"
      using once split(2) by (simp add: split(1) ys)
    then have "\<forall>z\<in>set zs. item_id z \<noteq> item_id item"
      by (simp add: filter_empty_conv)
    with split(3) show ?thesis by (intro removeById_none) auto
  qed
  from split first second
  show "\<exists>ys x zs. array = ys @ x # zs \<and> item_id x = item_id item
           \<and> (\<forall>y\<in>set ys. item_id y \<noteq> item_id item)
           \<and> removeById array item = (True, ys @ zs)
           \<and> (length (filter (\<lambda>el. item_id el = item_id item) array) \<le> 1 \<longrightarrow>
                removeById (ys @ zs) item = (False, ys @ zs))"
    by blast
next
  assume "has_instance class_fn item"
  then show "safeRemoveById array item class_fn = Inr (removeById array item)"
    by (simp add: safeRemoveById_def)
qed

theorem removeById_idempotent_witness:
  "length (filter (\<lambda>el. item_id el = item_id \<lparr>item_id = 2 :: nat\<rparr>)
      [\<lparr>item_id = 1 :: nat\<rparr>, \<lparr>item_id = 2\<rparr>, \<lparr>item_id = 3\<rparr>]) \<le> 1
   \<and> (\<exists>el\<in>set [\<lparr>item_id = 1 :: nat\<rparr>, \<lparr>item_id = 2\<rparr>, \<lparr>item_id = 3\<rparr>].
         item_id el = item_id \<lparr>item_id = 2 :: nat\<rparr>)
   \<and> removeById [\<lparr>item_id = 1 :: nat\<rparr>, \<lparr>item_id = 2\<rparr>, \<lparr>item_id = 3\<rparr>] \<lparr>item_id = 2 :: nat\<rparr>
       = (True, [\<lparr>item_id = 1\<rparr>, \<lparr>item_id = 3\<rparr>])
   \<and> removeById [\<lparr>item_id = 1 :: nat\<rparr>, \<lparr>item_id = 3\<rparr>] \<lparr>item_id = 2 :: nat\<rparr>
       = (False, [\<lparr>item_id = 1\<rparr>, \<lparr>item_id = 3\<rparr>])
   \<and> safeRemoveById [\<lparr>item_id = 1 :: nat\<rparr>, \<lparr>item_id = 2\<rparr>, \<lparr>item_id = 3\<rparr>] \<lparr>item_id = 2 :: nat\<rparr>
         \<lparr>class_text = ''ServerItem'', has_instance = (\<lambda>it. True)\<rparr>
       = Inr (True, [\<lparr>item_id = 1\<rparr>, \<lparr>item_id = 3\<rparr>])"
proof -
  have h: "length (filter (\<lambda>el. item_id el = item_id \<lparr>item_id = 2 :: nat\<rparr>)
      [\<lparr>item_id = 1 :: nat\<rparr>, \<lparr>item_id = 2\<rparr>, \<lparr>item_id = 3\<rparr>]) \<le> 1"
    by simp
  have m: "\<exists>el\<in>set [\<lparr>item_id = 1 :: nat\<rparr>, \<lparr>item_id = 2\<rparr>, \<lparr>item_id = 3\<rparr>].
         item_id el = item_id \<lparr>item_id = 2 :: nat\<rparr>"
    by simp
  note t = removeById_idempotent [of "[\<lparr>item_id = 1 :: nat\<rparr>, \<lparr>item_id = 2\<rparr>, \<lparr>item_id = 3\<rparr>]"
      "\<lparr>item_id = 2 :: nat\<rparr>" "\<lparr>class_text = ''ServerItem'', has_instance = (\<lambda>it. True)\<rparr>"]
  from t have s: "safeRemoveById [\<lparr>item_id = 1 :: nat\<rparr>, \<lparr>item_id = 2\<rparr>, \<lparr>item_id = 3\<rparr>]
         \<lparr>item_id = 2 :: nat\<rparr> \<lparr>class_text = ''ServerItem'', has_instance = (\<lambda>it. True)\<rparr>
       = Inr (removeById [\<lparr>item_id = 1 :: nat\<rparr>, \<lparr>item_id = 2\<rparr>, \<lparr>item_id = 3\<rparr>]
           \<lparr>item_id = 2 :: nat\<rparr>)"
    by simp
  from t m h
  obtain ys zs :: "nat Item list" where
    "removeById [\<lparr>item_id = 1 :: nat\<rparr>, \<lparr>item_id = 2\<rparr>, \<lparr>item_id = 3\<rparr>] \<lparr>item_id = 2 :: nat\<rparr>
       = (True, ys @ zs)"
    "removeById (ys @ zs) \<lparr>item_id = 2 :: nat\<rparr> = (False, ys @ zs)"
    by blast
  moreover have
    "removeById [\<lparr>item_id = 1 :: nat\<rparr>, \<lparr>item_id = 2\<rparr>, \<lparr>item_id = 3\<rparr>] \<lparr>item_id = 2 :: nat\<rparr>
       = (True, [\<lparr>item_id = 1\<rparr>, \<lparr>item_id = 3\<rparr>])"
    by (simp add: removeById_def splice1_def)
  ultimately show ?thesis using h m s by simp
qed

text \<open>
  Two elements with the id of the item: the second removal returns true again and
  removes the other one.
\<close>

theorem removeById_duplicate_counterexample:
  "removeById [\<lparr>item_id = 7 :: nat\<rparr>, \<lparr>item_id = 7\<rparr>] \<lparr>item_id = 7 :: nat\<rparr> = (True, [\<lparr>item_id = 7\<rparr>])
   \<and> removeById [\<lparr>item_id = 7 :: nat\<rparr>] \<lparr>item_id = 7 :: nat\<rparr> = (True, [])"
  by (simp add: removeById_def splice1_def)

end
